theory Spec2Isabelle
  imports Main "HOL-Library.Word" "HOL-Library.Char_ord" "HOL-Library.List_Lexorder"
begin

section \<open>Errors, panics and results\<close>

text \<open>
  Every error value the package builds with \<^verbatim>\<open>errors.New\<close> or \<^verbatim>\<open>fmt.Errorf\<close> is a
  constructor; the arguments of the format string are kept as arguments.  Errors that
  come out of the libraries the package calls (\<^verbatim>\<open>database/sql\<close>, the SQLite driver, the
  \<^verbatim>\<open>crypto\<close> packages) are \<open>SqlArgCount\<close>, \<open>SqlErrNoRows\<close> and \<open>External\<close>.
\<close>

datatype error =
    PrivateKeyTooSmall nat nat
  | PrivateKeyUndefined
  | UnsupportedEllipticCurve
  | UnsupportedPrivateKeyType
  | SessionBackingNotOpened
  | NewSessionNoRowsAffected
  | WriteExpectedBytes nat nat
  | SqlArgCount nat nat
  | SqlErrNoRows
  | External string

text \<open>A Go call either returns, returns a non-nil error, or panics.\<close>

datatype panic = NilPointerDereference | PanicMessage string

datatype 'a outcome = Ok 'a | Err error | Panic panic

section \<open>The SQLite session backing (session\_sqlite.go)\<close>

subsection \<open>The database behind \<^verbatim>\<open>database/sql\<close>\<close>

text \<open>
  The \<^verbatim>\<open>sessions\<close> table, as the schema comment of the source gives it.  Times are whole
  seconds since the epoch: the liveness query compares \<^verbatim>\<open>datetime\<close> values, which SQLite
  keeps to the second.
\<close>

record session_row =
  row_id :: int
  email :: string
  email_canonical :: string
  duration :: int
  created_at :: int

datatype query = newSessionQuery | hasSessionQuery

text \<open>
  The number of \<^verbatim>\<open>?\<close> placeholders of each query: \<^verbatim>\<open>VALUES (?, ?, min(?, ?))\<close> has four,
  \<^verbatim>\<open>WHERE email_canonical=?\<close> has one.  It is what the driver's \<^verbatim>\<open>NumInput\<close> reports.
\<close>

fun NumInput :: "query \<Rightarrow> nat" where
  "NumInput newSessionQuery = 4"
| "NumInput hasSessionQuery = 1"

datatype sql_value = SqlText string | SqlInt int

text \<open>
  A connection: the rows of the table, the clock that \<^verbatim>\<open>datetime('now')\<close> and
  \<^verbatim>\<open>CURRENT_TIMESTAMP\<close> read, and the failures the storage layer may report
  (\<open>None\<close> is Go's \<^verbatim>\<open>nil\<close> error).
\<close>

record sql_DB =
  table_rows :: "session_row list"
  clock :: int
  ping_err :: "error option"
  prepare_err :: "error option"
  exec_err :: "error option"
  db_close_err :: "error option"
  stmt_close_err :: "query \<Rightarrow> error option"

record sql_Stmt =
  stmt_query :: query
  stmt_closes_with :: "error option"

definition Prepare :: "sql_DB \<Rightarrow> query \<Rightarrow> error + sql_Stmt" where
  "Prepare db q =
     (case prepare_err db of
        Some e \<Rightarrow> Inl e
      | None \<Rightarrow> Inr \<lparr>stmt_query = q, stmt_closes_with = stmt_close_err db q\<rparr>)"

text \<open>
  \<^verbatim>\<open>hasSessionQuery\<close>: the rows whose \<^verbatim>\<open>email_canonical\<close> equals the argument and whose
  \<^verbatim>\<open>created_at + duration\<close> lies after the clock.
\<close>

definition live_rows :: "sql_DB \<Rightarrow> string \<Rightarrow> session_row list" where
  "live_rows db e =
     filter (\<lambda>r. email_canonical r = e \<and> created_at r + duration r > clock db) (table_rows db)"

text \<open>
  \<^verbatim>\<open>newSessionQuery\<close>: one row is added, with \<^verbatim>\<open>duration = min(?, ?)\<close>, a fresh \<^verbatim>\<open>id\<close> and
  \<^verbatim>\<open>created_at\<close> read from the clock; \<^verbatim>\<open>email_canonical\<close> is \<^verbatim>\<open>UNIQUE\<close>.
\<close>

definition insert_session :: "sql_DB \<Rightarrow> sql_value list \<Rightarrow> error + (sql_DB \<times> int)" where
  "insert_session db args =
     (case args of
        [SqlText e, SqlText c, SqlInt a, SqlInt b] \<Rightarrow>
          if c \<in> email_canonical ` set (table_rows db)
          then Inl (External ''UNIQUE constraint failed: sessions.email_canonical'')
          else Inr (db\<lparr>table_rows := table_rows db @
                      [\<lparr>row_id = fold max (map row_id (table_rows db)) 0 + 1,
                        email = e, email_canonical = c,
                        duration = min a b, created_at = clock db\<rparr>]\<rparr>, 1)
      | _ \<Rightarrow> Inl (External ''constraint failed''))"

text \<open>
  \<^verbatim>\<open>Stmt.Exec\<close>.  \<^verbatim>\<open>database/sql\<close> compares the number of arguments with the statement's
  \<^verbatim>\<open>NumInput\<close> before anything reaches the driver, and answers
  \<^verbatim>\<open>sql: expected %d arguments, got %d\<close> when they differ.
\<close>

definition Exec :: "sql_DB \<Rightarrow> sql_Stmt \<Rightarrow> sql_value list \<Rightarrow> error + (sql_DB \<times> int)" where
  "Exec db s args =
     (if length args \<noteq> NumInput (stmt_query s)
      then Inl (SqlArgCount (NumInput (stmt_query s)) (length args))
      else case exec_err db of
        Some e \<Rightarrow> Inl e
      | None \<Rightarrow>
         (case stmt_query s of
            newSessionQuery \<Rightarrow> insert_session db args
          | hasSessionQuery \<Rightarrow> Inr (db, 0)))"

text \<open>
  \<^verbatim>\<open>Stmt.QueryRow(args).Scan(&id)\<close>: the \<^verbatim>\<open>id\<close> of the first row of the result,
  \<^verbatim>\<open>sql.ErrNoRows\<close> when the result is empty, or the error of the query.
\<close>

definition QueryRow_Scan :: "sql_DB \<Rightarrow> sql_Stmt \<Rightarrow> sql_value list \<Rightarrow> error + int" where
  "QueryRow_Scan db s args =
     (if length args \<noteq> NumInput (stmt_query s)
      then Inl (SqlArgCount (NumInput (stmt_query s)) (length args))
      else case exec_err db of
        Some e \<Rightarrow> Inl e
      | None \<Rightarrow>
         (case (stmt_query s, args) of
            (hasSessionQuery, [SqlText e]) \<Rightarrow>
              (case live_rows db e of [] \<Rightarrow> Inl SqlErrNoRows | r # _ \<Rightarrow> Inr (row_id r))
          | (hasSessionQuery, _) \<Rightarrow> Inl SqlErrNoRows
          | (newSessionQuery, _) \<Rightarrow> Inl SqlErrNoRows))"

subsection \<open>SQLiteBacking\<close>

text \<open>The three handles of the struct; \<open>None\<close> is the \<^verbatim>\<open>nil\<close> pointer.\<close>

record SQLiteBacking =
  DB :: "sql_DB option"
  newSessionStmt :: "sql_Stmt option"
  hasSessionStmt :: "sql_Stmt option"

text \<open>
  \<^verbatim>\<open>Open\<close>: \<^verbatim>\<open>sql.Open\<close> (here \<open>sql_Open\<close>, the driver's answer for a location) and then
  \<^verbatim>\<open>Ping\<close>.
\<close>

definition Open :: "(string \<Rightarrow> error + sql_DB) \<Rightarrow> SQLiteBacking \<Rightarrow> string
    \<Rightarrow> SQLiteBacking \<times> error option" where
  "Open sql_Open b location =
     (case sql_Open location of
        Inl e \<Rightarrow> (b\<lparr>DB := None\<rparr>, Some e)
      | Inr db \<Rightarrow> (b\<lparr>DB := Some db\<rparr>, ping_err db))"

text \<open>
  \<^verbatim>\<open>Close\<close>: three \<^verbatim>\<open>if\<close> statements in sequence, each assigning the one variable
  \<^verbatim>\<open>err\<close> and clearing its handle.
\<close>

definition Close :: "SQLiteBacking \<Rightarrow> SQLiteBacking \<times> error option" where
  "Close b =
     (let (b1, err1) = (case DB b of
                          Some db \<Rightarrow> (b\<lparr>DB := None\<rparr>, db_close_err db)
                        | None \<Rightarrow> (b, None));
          (b2, err2) = (case newSessionStmt b1 of
                          Some s \<Rightarrow> (b1\<lparr>newSessionStmt := None\<rparr>, stmt_closes_with s)
                        | None \<Rightarrow> (b1, err1));
          (b3, err3) = (case hasSessionStmt b2 of
                          Some s \<Rightarrow> (b2\<lparr>hasSessionStmt := None\<rparr>, stmt_closes_with s)
                        | None \<Rightarrow> (b2, err2))
      in (b3, err3))"

text \<open>
  \<^verbatim>\<open>NewSession(email, id string)\<close>: prepares \<^verbatim>\<open>newSessionQuery\<close> on first use and runs
  \<^verbatim>\<open>Exec(email, id)\<close>, with two arguments.
\<close>

definition NewSession :: "SQLiteBacking \<Rightarrow> string \<Rightarrow> string \<Rightarrow> SQLiteBacking \<times> error option" where
  "NewSession b em ident =
     (case DB b of
        None \<Rightarrow> (b, Some SessionBackingNotOpened)
      | Some db \<Rightarrow>
         (case (case newSessionStmt b of
                  Some s \<Rightarrow> Inr s
                | None \<Rightarrow> Prepare db newSessionQuery) of
            Inl e \<Rightarrow> (b\<lparr>newSessionStmt := None\<rparr>, Some e)
          | Inr s \<Rightarrow>
             (case Exec db s [SqlText em, SqlText ident] of
                Inl e \<Rightarrow> (b\<lparr>newSessionStmt := Some s\<rparr>, Some e)
              | Inr (db', n) \<Rightarrow>
                  if n = 0
                  then (b\<lparr>DB := Some db', newSessionStmt := Some s\<rparr>, Some NewSessionNoRowsAffected)
                  else (b\<lparr>DB := Some db', newSessionStmt := Some s\<rparr>, None))))"

text \<open>
  \<^verbatim>\<open>HasSession(email)\<close>: prepares \<^verbatim>\<open>hasSessionQuery\<close> on first use, scans one row, and
  turns \<^verbatim>\<open>sql.ErrNoRows\<close> into \<^verbatim>\<open>(false, nil)\<close>.
\<close>

definition HasSession :: "SQLiteBacking \<Rightarrow> string \<Rightarrow> SQLiteBacking \<times> bool \<times> error option" where
  "HasSession b em =
     (case DB b of
        None \<Rightarrow> (b, False, Some SessionBackingNotOpened)
      | Some db \<Rightarrow>
         (case (case hasSessionStmt b of
                  Some s \<Rightarrow> Inr s
                | None \<Rightarrow> Prepare db hasSessionQuery) of
            Inl e \<Rightarrow> (b\<lparr>hasSessionStmt := None\<rparr>, False, Some e)
          | Inr s \<Rightarrow>
             (case QueryRow_Scan db s [SqlText em] of
                Inr i \<Rightarrow> (b\<lparr>hasSessionStmt := Some s\<rparr>, True, None)
              | Inl SqlErrNoRows \<Rightarrow> (b\<lparr>hasSessionStmt := Some s\<rparr>, False, None)
              | Inl e \<Rightarrow> (b\<lparr>hasSessionStmt := Some s\<rparr>, False, Some e))))"

text \<open>
  The statement handles are private fields that only \<^verbatim>\<open>NewSession\<close> and \<^verbatim>\<open>HasSession\<close>
  assign, each from \<^verbatim>\<open>Prepare\<close> of its own query.
\<close>

definition handles_ok :: "SQLiteBacking \<Rightarrow> bool" where
  "handles_ok b =
     ((case newSessionStmt b of None \<Rightarrow> True | Some s \<Rightarrow> stmt_query s = newSessionQuery) \<and>
      (case hasSessionStmt b of None \<Rightarrow> True | Some s \<Rightarrow> stmt_query s = hasSessionQuery))"

text \<open>A freshly opened, empty store at second 1000, on storage that never fails.\<close>

definition fresh_db :: sql_DB where
  "fresh_db = \<lparr>table_rows = [], clock = 1000, ping_err = None, prepare_err = None,
               exec_err = None, db_close_err = None, stmt_close_err = (\<lambda>_. None)\<rparr>"

definition fresh_backing :: SQLiteBacking where
  "fresh_backing = \<lparr>DB = Some fresh_db, newSessionStmt = None, hasSessionStmt = None\<rparr>"

section \<open>The signing key\<close>

subsection \<open>Big integers and their formats\<close>

text \<open>\<^verbatim>\<open>big.Int.BitLen\<close>: the length of the absolute value in bits, 0 for 0.\<close>

fun bit_length :: "nat \<Rightarrow> nat" where
  "bit_length n = (if n = 0 then 0 else Suc (bit_length (n div 2)))"

declare bit_length.simps [simp del]

definition BitLen :: "int \<Rightarrow> nat" where
  "BitLen x = bit_length (nat \<bar>x\<bar>)"

definition digit_char :: "nat \<Rightarrow> char" where
  "digit_char d = (if d < 10 then char_of (48 + d) else char_of (87 + d))"

fun dec_digits :: "nat \<Rightarrow> string" where
  "dec_digits n = (if n < 10 then [digit_char n]
                   else dec_digits (n div 10) @ [digit_char (n mod 10)])"

declare dec_digits.simps [simp del]

fun hex_digits :: "nat \<Rightarrow> string" where
  "hex_digits n = (if n < 16 then [digit_char n]
                   else hex_digits (n div 16) @ [digit_char (n mod 16)])"

declare hex_digits.simps [simp del]

text \<open>\<^verbatim>\<open>big.Int.String()\<close> and \<^verbatim>\<open>%d\<close>: decimal, with a minus sign.\<close>

definition dec_int :: "int \<Rightarrow> string" where
  "dec_int x = (if x < 0 then ''-'' else []) @ dec_digits (nat \<bar>x\<bar>)"

text \<open>\<^verbatim>\<open>%02x\<close> of a \<^verbatim>\<open>big.Int\<close>: lower-case hexadecimal, filled with zeros to width 2.\<close>

definition hex02 :: "int \<Rightarrow> string" where
  "hex02 x =
     (let sign = (if x < 0 then ''-'' else []); ds = hex_digits (nat \<bar>x\<bar>)
      in sign @ replicate (2 - (length sign + length ds)) (CHR ''0'') @ ds)"

text \<open>\<^verbatim>\<open>big.Int.Bytes()\<close>: the absolute value, big-endian, without leading zero bytes.\<close>

fun big_Bytes_nat :: "nat \<Rightarrow> string" where
  "big_Bytes_nat n = (if n = 0 then [] else big_Bytes_nat (n div 256) @ [char_of (n mod 256)])"

declare big_Bytes_nat.simps [simp del]

definition big_Bytes :: "int \<Rightarrow> string" where
  "big_Bytes x = big_Bytes_nat (nat \<bar>x\<bar>)"

subsection \<open>Keys\<close>

text \<open>
  The key types of \<^verbatim>\<open>crypto/dsa\<close>, \<^verbatim>\<open>crypto/ecdsa\<close> and \<^verbatim>\<open>crypto/rsa\<close>, with the fields the
  package reads.  The value handed to \<^verbatim>\<open>SetPrivateKey\<close> is an \<^verbatim>\<open>interface{}\<close>: \<open>NilKey\<close> is
  the nil interface, \<open>OtherKey\<close> a value of any other type.  Pointers inside a key are
  taken to be non-nil.
\<close>

record dsa_PrivateKey =
  dsa_P :: int
  dsa_Q :: int
  dsa_G :: int
  dsa_Y :: int
  dsa_X :: int

datatype curve = P224 | P256 | P384 | P521 | OtherCurve

record ecdsa_PrivateKey =
  ecdsa_Curve :: curve
  ecdsa_X :: int
  ecdsa_Y :: int
  ecdsa_D :: int

record rsa_PrivateKey =
  rsa_N :: int
  rsa_E :: int
  rsa_D :: int

datatype key =
    NilKey
  | DSA dsa_PrivateKey
  | ECDSA ecdsa_PrivateKey
  | RSA rsa_PrivateKey
  | OtherKey

definition MinKeySizeDSA :: nat where "MinKeySizeDSA = 2048"
definition MinKeySizeRSA :: nat where "MinKeySizeRSA = 2048"

fun SupportedEllipticCurves :: "curve \<Rightarrow> string option" where
  "SupportedEllipticCurves P224 = Some ''P-224''"
| "SupportedEllipticCurves P256 = Some ''P-256''"
| "SupportedEllipticCurves P384 = Some ''P-384''"
| "SupportedEllipticCurves P521 = Some ''P-521''"
| "SupportedEllipticCurves OtherCurve = None"

text \<open>The map \<^verbatim>\<open>PrivateKeyTypeToAlgorithm\<close>; a missing key reads as the empty string.\<close>

definition PrivateKeyTypeToAlgorithm :: "string \<Rightarrow> string" where
  "PrivateKeyTypeToAlgorithm t =
     (if t = ''DSA'' then ''DS'' else if t = ''ECDSA'' then ''EC''
      else if t = ''RSA'' then ''RS'' else [])"

datatype public_key =
    PublicKeyDSA string string string string string
  | PublicKeyECDSA string string string string
  | PublicKeyRSA string string string

record PrivateKey =
  key :: key
  supportDoc :: "public_key option"

text \<open>
  \<^verbatim>\<open>SetPrivateKey\<close>.  The second argument is the package variable
  \<^verbatim>\<open>var privateKey *PrivateKey\<close> (\<open>None\<close> is the nil pointer it starts as); the result is
  its new value and the returned error.  \<^verbatim>\<open>k.Precompute()\<close> fills fields of the RSA key
  that nothing here reads.
\<close>

definition SetPrivateKey :: "key \<Rightarrow> PrivateKey option \<Rightarrow> PrivateKey option \<times> error option" where
  "SetPrivateKey k privateKey =
     (case k of
        DSA d \<Rightarrow>
          if BitLen (dsa_Q d) < MinKeySizeDSA
          then (privateKey, Some (PrivateKeyTooSmall (BitLen (dsa_Q d)) MinKeySizeDSA))
          else (Some \<lparr>key = k, supportDoc = Some (PublicKeyDSA
                   (PrivateKeyTypeToAlgorithm ''DSA'')
                   (hex02 (dsa_G d)) (hex02 (dsa_P d)) (hex02 (dsa_Q d)) (hex02 (dsa_Y d)))\<rparr>,
                None)
      | ECDSA e \<Rightarrow>
          (case SupportedEllipticCurves (ecdsa_Curve e) of
             None \<Rightarrow> (privateKey, Some UnsupportedEllipticCurve)
           | Some crv \<Rightarrow>
               (Some \<lparr>key = k, supportDoc = Some (PublicKeyECDSA
                   (PrivateKeyTypeToAlgorithm ''ECDSA'') crv
                   (dec_int (ecdsa_X e)) (dec_int (ecdsa_Y e)))\<rparr>,
                None))
      | RSA r \<Rightarrow>
          if BitLen (rsa_N r) < MinKeySizeRSA
          then (privateKey, Some (PrivateKeyTooSmall (BitLen (rsa_N r)) MinKeySizeRSA))
          else (Some \<lparr>key = k, supportDoc = Some (PublicKeyRSA
                   (PrivateKeyTypeToAlgorithm ''RSA'')
                   (dec_int (rsa_N r)) (dec_int (rsa_E r)))\<rparr>,
                None)
      | _ \<Rightarrow> (privateKey, Some UnsupportedPrivateKeyType))"

text \<open>
  The methods have the pointer receiver \<^verbatim>\<open>pk *PrivateKey\<close> and begin by reading
  \<^verbatim>\<open>pk.key\<close>: on the nil pointer that read is a run-time panic.
\<close>

definition SupportDoc :: "PrivateKey option \<Rightarrow> public_key option outcome" where
  "SupportDoc pk =
     (case pk of
        None \<Rightarrow> Panic NilPointerDereference
      | Some p \<Rightarrow> if key p = NilKey then Err PrivateKeyUndefined else Ok (supportDoc p))"

record IdentityCertificateHeader =
  Alg :: string

definition IdCertHeader :: "PrivateKey option \<Rightarrow> IdentityCertificateHeader outcome" where
  "IdCertHeader pk =
     (case pk of
        None \<Rightarrow> Panic NilPointerDereference
      | Some p \<Rightarrow>
         (case key p of
            NilKey \<Rightarrow> Err PrivateKeyUndefined
          | DSA d \<Rightarrow> Ok \<lparr>Alg = PrivateKeyTypeToAlgorithm ''DSA''
                               @ dec_digits (BitLen (dsa_Q d) div 8)\<rparr>
          | ECDSA e \<Rightarrow> Ok \<lparr>Alg = PrivateKeyTypeToAlgorithm ''ECDSA''
                               @ dec_digits (BitLen (ecdsa_X e))\<rparr>
          | RSA r \<Rightarrow> Ok \<lparr>Alg = PrivateKeyTypeToAlgorithm ''RSA''
                               @ dec_digits (BitLen (rsa_N r) div 8)\<rparr>
          | OtherKey \<Rightarrow> Panic (PanicMessage ''unsupported private key type.'')))"

text \<open>
  The signing primitives of the \<^verbatim>\<open>crypto\<close> packages, with \<^verbatim>\<open>rand.Reader\<close> inside them,
  and SHA-256.  They are parameters: nothing below depends on what they compute.
\<close>

record crypto_env =
  dsa_Sign :: "dsa_PrivateKey \<Rightarrow> string \<Rightarrow> error + (int \<times> int)"
  ecdsa_Sign :: "ecdsa_PrivateKey \<Rightarrow> string \<Rightarrow> error + (int \<times> int)"
  rsa_SignPKCS1v15 :: "rsa_PrivateKey \<Rightarrow> string \<Rightarrow> error + string"
  sha256_Sum :: "string \<Rightarrow> string"

definition signDSA :: "crypto_env \<Rightarrow> dsa_PrivateKey \<Rightarrow> string \<Rightarrow> string outcome" where
  "signDSA env k data =
     (case dsa_Sign env k data of
        Inl e \<Rightarrow> Err e
      | Inr (r, s) \<Rightarrow> Ok (big_Bytes r @ big_Bytes s))"

definition signECDSA :: "crypto_env \<Rightarrow> ecdsa_PrivateKey \<Rightarrow> string \<Rightarrow> string outcome" where
  "signECDSA env k data =
     (case ecdsa_Sign env k data of
        Inl e \<Rightarrow> Err e
      | Inr (r, s) \<Rightarrow> Ok (big_Bytes r @ big_Bytes s))"

definition signRSA :: "crypto_env \<Rightarrow> rsa_PrivateKey \<Rightarrow> string \<Rightarrow> string outcome" where
  "signRSA env k data =
     (case rsa_SignPKCS1v15 env k data of Inl e \<Rightarrow> Err e | Inr sig \<Rightarrow> Ok sig)"

definition Sign :: "crypto_env \<Rightarrow> PrivateKey option \<Rightarrow> string \<Rightarrow> string outcome" where
  "Sign env pk data =
     (case pk of
        None \<Rightarrow> Panic NilPointerDereference
      | Some p \<Rightarrow>
         (case key p of
            NilKey \<Rightarrow> Err PrivateKeyUndefined
          | DSA d \<Rightarrow> signDSA env d data
          | ECDSA e \<Rightarrow> signECDSA env e data
          | RSA r \<Rightarrow> signRSA env r data
          | OtherKey \<Rightarrow> Panic (PanicMessage ''unsupported private key type.'')))"

section \<open>The certificate issuer (identity\_certificate.go)\<close>

subsection \<open>\<^verbatim>\<open>encoding/json\<close>\<close>

text \<open>
  A string is its bytes.  The encoder writes \<^verbatim>\<open>"\<close> and the backslash with a backslash,
  the control characters as \<^verbatim>\<open>\b \f \n \r \t\<close> or \<^verbatim>\<open>\u00xx\<close>, and, as it escapes HTML,
  \<^verbatim>\<open><\<close>, \<^verbatim>\<open>>\<close> and \<^verbatim>\<open>&\<close> as \<^verbatim>\<open>\u00xx\<close> too.  Bytes from 128 on are copied: strings are
  taken to be valid UTF-8 without U+2028 and U+2029.
\<close>

definition json_char :: "char \<Rightarrow> string" where
  "json_char c =
     (let n = (of_char c :: nat) in
      if n = 34 \<or> n = 92 then [CHR 0x5C, c]
      else if n = 8 then [CHR 0x5C, CHR ''b'']
      else if n = 12 then [CHR 0x5C, CHR ''f'']
      else if n = 10 then [CHR 0x5C, CHR ''n'']
      else if n = 13 then [CHR 0x5C, CHR ''r'']
      else if n = 9 then [CHR 0x5C, CHR ''t'']
      else if n < 32 \<or> n = 60 \<or> n = 62 \<or> n = 38
        then [CHR 0x5C, CHR ''u'', CHR ''0'', CHR ''0'', digit_char (n div 16), digit_char (n mod 16)]
      else [c])"

definition json_string :: "string \<Rightarrow> string" where
  "json_string s = [CHR 0x22] @ concat (map json_char s) @ [CHR 0x22]"

fun join_comma :: "string list \<Rightarrow> string" where
  "join_comma [] = []"
| "join_comma [x] = x"
| "join_comma (x # y # ys) = x @ '','' @ join_comma (y # ys)"

text \<open>
  A \<^verbatim>\<open>map[string]string\<close> is a list of entries with distinct keys, \<open>None\<close> the nil map.
  The encoder writes \<^verbatim>\<open>null\<close> for the nil map and the entries in the order of their keys
  otherwise.
\<close>

definition json_map :: "(string \<times> string) list option \<Rightarrow> string" where
  "json_map m =
     (case m of
        None \<Rightarrow> ''null''
      | Some kvs \<Rightarrow>
          ''{'' @ join_comma (map (\<lambda>(k, v). json_string k @ '':'' @ json_string v)
                                  (sort_key fst kvs)) @ ''}'')"

record IdentityCertificatePrincipal =
  Email :: string

record IdentityCertificate =
  Iat :: "64 word"
  Exp :: "64 word"
  Iss :: string
  PublicKey :: "(string \<times> string) list option"
  Principal :: IdentityCertificatePrincipal

definition json_IdentityCertificateHeader :: "IdentityCertificateHeader \<Rightarrow> string" where
  \<open>json_IdentityCertificateHeader h = ''{"alg":'' @ json_string (Alg h) @ ''}''\<close>

text \<open>The tags \<^verbatim>\<open>json:"iat,string"\<close> and \<^verbatim>\<open>json:"exp,string"\<close> put the numbers in quotes.\<close>

definition json_IdentityCertificate :: "IdentityCertificate \<Rightarrow> string" where
  \<open>json_IdentityCertificate c =
     ''{"iat":"'' @ dec_int (sint (Iat c)) @ ''","exp":"'' @ dec_int (sint (Exp c))
     @ ''","iss":'' @ json_string (Iss c)
     @ '',"public-key":'' @ json_map (PublicKey c)
     @ '',"principal":{"email":'' @ json_string (Email (Principal c)) @ ''}}''\<close>

subsection \<open>\<^verbatim>\<open>encoding/base64\<close>\<close>

definition encodeURL :: string where
  "encodeURL = ''ABCDEFGHIJKLMNOPQRSTUVWXYZabcdefghijklmnopqrstuvwxyz0123456789-_''"

text \<open>Whole groups of three bytes become four characters; a shorter rest is left out.\<close>

fun encode_groups :: "string \<Rightarrow> string" where
  "encode_groups (a # b # c # rest) =
     (let n = (of_char a :: nat) * 65536 + of_char b * 256 + of_char c
      in [encodeURL ! (n div 262144), encodeURL ! (n div 4096 mod 64),
          encodeURL ! (n div 64 mod 64), encodeURL ! (n mod 64)] @ encode_groups rest)"
| "encode_groups _ = []"

text \<open>
  The streaming encoder of \<^verbatim>\<open>base64.NewEncoder\<close> keeps up to two bytes that do not fill a
  group yet.  \<^verbatim>\<open>Write\<close> puts them in front of the new bytes, appends the encoding of
  the whole groups to the underlying buffer and keeps the rest.  The state is the pair
  of the kept bytes and the contents of the \<^verbatim>\<open>bytes.Buffer\<close> \<^verbatim>\<open>output\<close>.
\<close>

definition encoder_Write :: "string \<times> string \<Rightarrow> string \<Rightarrow> string \<times> string" where
  "encoder_Write st p =
     (let pending = fst st @ p; n = 3 * (length pending div 3)
      in (drop n pending, snd st @ encode_groups (take n pending)))"

text \<open>\<^verbatim>\<open>output.WriteByte\<close> goes to the buffer directly, past the encoder.\<close>

definition WriteByte :: "string \<times> string \<Rightarrow> char \<Rightarrow> string \<times> string" where
  "WriteByte st c = (fst st, snd st @ [c])"

text \<open>
  Reading a token: \<^verbatim>\<open>strings.Split(token, ".")\<close> and
  \<^verbatim>\<open>base64.RawURLEncoding.DecodeString\<close>, the decoder of unpadded base64url, which
  skips carriage returns and newlines.
\<close>

fun split_dot :: "string \<Rightarrow> string list" where
  "split_dot [] = [[]]"
| "split_dot (c # cs) =
     (if c = CHR ''.'' then [] # split_dot cs
      else (case split_dot cs of [] \<Rightarrow> [[c]] | seg # segs \<Rightarrow> (c # seg) # segs))"

fun index_of :: "char \<Rightarrow> string \<Rightarrow> nat option" where
  "index_of c [] = None"
| "index_of c (x # xs) = (if c = x then Some 0 else map_option Suc (index_of c xs))"

fun decode_values :: "nat list \<Rightarrow> string option" where
  "decode_values (a # b # c # d # rest) =
     (let n = a * 262144 + b * 4096 + c * 64 + d
      in map_option (\<lambda>r. [char_of (n div 65536), char_of (n div 256 mod 256),
                           char_of (n mod 256)] @ r) (decode_values rest))"
| "decode_values [a, b, c] =
     (let n = a * 4096 + b * 64 + c
      in Some [char_of (n div 1024), char_of (n div 4 mod 256)])"
| "decode_values [a, b] = Some [char_of ((a * 64 + b) div 16)]"
| "decode_values [a] = None"
| "decode_values [] = Some []"

fun those_values :: "string \<Rightarrow> nat list option" where
  "those_values [] = Some []"
| "those_values (c # cs) =
     (case index_of c encodeURL of
        None \<Rightarrow> None
      | Some v \<Rightarrow> map_option ((#) v) (those_values cs))"

definition RawURL_DecodeString :: "string \<Rightarrow> string option" where
  "RawURL_DecodeString s =
     (case those_values (filter (\<lambda>c. c \<noteq> CHR 0x0A \<and> c \<noteq> CHR 0x0D) s) of
        None \<Rightarrow> None
      | Some vs \<Rightarrow> decode_values vs)"

subsection \<open>Time\<close>

text \<open>
  An instant is its number of nanoseconds since the epoch.  \<^verbatim>\<open>time.Duration\<close> counts
  nanoseconds, so \<^verbatim>\<open>Add\<close> adds its argument as nanoseconds, \<^verbatim>\<open>Unix\<close> is the number of whole
  seconds as an \<^verbatim>\<open>int64\<close>, and the constant \<^verbatim>\<open>time.Millisecond\<close> is 1000000.
\<close>

definition Add :: "int \<Rightarrow> int \<Rightarrow> int" where
  "Add t d = t + d"

definition Unix :: "int \<Rightarrow> 64 word" where
  "Unix t = word_of_int (t div 1000000000)"

definition Millisecond :: "64 word" where
  "Millisecond = 1000000"

subsection \<open>identityCertificate\<close>

definition SessionMaxDuration :: int where "SessionMaxDuration = 86400"

definition idCertExpMaxDuration :: int where "idCertExpMaxDuration = SessionMaxDuration"

definition idCertIatFuzzDuration :: int where "idCertIatFuzzDuration = - 10"

record RequestGenerateCertificate =
  req_Email :: string
  req_PublicKey :: "(string \<times> string) list option"
  req_Duration :: int

text \<open>
  The \<^verbatim>\<open>if\<close> that clamps \<^verbatim>\<open>req.Duration\<close>, and the struct literal \<^verbatim>\<open>idCert\<close>.  The clock is
  read twice: \<open>now1\<close> is the first \<^verbatim>\<open>time.Now()\<close>, \<open>now2\<close> the second.
\<close>

definition clamp_Duration :: "RequestGenerateCertificate \<Rightarrow> RequestGenerateCertificate" where
  "clamp_Duration req =
     (if req_Duration req > idCertExpMaxDuration
      then req\<lparr>req_Duration := idCertExpMaxDuration\<rparr> else req)"

definition idCert :: "int \<Rightarrow> int \<Rightarrow> RequestGenerateCertificate \<Rightarrow> IdentityCertificate" where
  "idCert now1 now2 req =
     \<lparr>Iat = Unix (Add now1 idCertIatFuzzDuration) * Millisecond,
      Exp = Unix (Add now2 idCertExpMaxDuration) * Millisecond,
      Iss = ''timewasted.me'',
      PublicKey = req_PublicKey req,
      Principal = \<lparr>Email = req_Email req\<rparr>\<rparr>"

text \<open>
  \<^verbatim>\<open>identityCertificate\<close>.  \<^verbatim>\<open>jsonEncoder.Encode\<close> writes the encoding and a newline to
  the base64 encoder in one \<^verbatim>\<open>Write\<close>.  Writing to a \<^verbatim>\<open>bytes.Buffer\<close> and to the hash
  returns no error and the full count, so those early returns are never taken.  The
  result is \<^verbatim>\<open>output.String()\<close> as it is before the deferred \<^verbatim>\<open>b64Encoder.Close()\<close> runs:
  the bytes the encoder still keeps are not part of it.
\<close>

definition identityCertificate ::
    "crypto_env \<Rightarrow> PrivateKey option \<Rightarrow> int \<Rightarrow> int \<Rightarrow> RequestGenerateCertificate \<Rightarrow> string outcome" where
  "identityCertificate env privateKey now1 now2 req =
     (case IdCertHeader privateKey of
        Panic p \<Rightarrow> Panic p
      | Err e \<Rightarrow> Err e
      | Ok idCertHeader \<Rightarrow>
         (let st1 = encoder_Write ([], []) (json_IdentityCertificateHeader idCertHeader @ [CHR 0x0A]);
              st2 = WriteByte st1 (CHR ''.'');
              req' = clamp_Duration req;
              st3 = encoder_Write st2 (json_IdentityCertificate (idCert now1 now2 req') @ [CHR 0x0A])
          in case Sign env privateKey (sha256_Sum env (snd st3)) of
               Panic p \<Rightarrow> Panic p
             | Err e \<Rightarrow> Err e
             | Ok sig \<Rightarrow>
                 (let st4 = WriteByte st3 (CHR ''.'');
                      st5 = encoder_Write st4 sig
                  in Ok (snd st5))))"

section \<open>Concrete inputs\<close>

text \<open>
  A store with one session that ran out at second 900, and a store whose storage
  layer fails.
\<close>

definition expired_backing :: SQLiteBacking where
  "expired_backing =
     \<lparr>DB = Some (fresh_db\<lparr>table_rows :=
              [\<lparr>row_id = 1, email = ''User@Example.com'', email_canonical = ''user@example.com'',
                duration = 100, created_at = 800\<rparr>]\<rparr>),
      newSessionStmt = None, hasSessionStmt = None\<rparr>"

definition failing_backing :: SQLiteBacking where
  "failing_backing =
     \<lparr>DB = Some (fresh_db\<lparr>exec_err := Some (External ''disk I/O error'')\<rparr>),
      newSessionStmt = None, hasSessionStmt = None\<rparr>"

text \<open>A backing whose connection fails to close while its two statements close cleanly.\<close>

definition closing_backing :: SQLiteBacking where
  "closing_backing =
     \<lparr>DB = Some (fresh_db\<lparr>db_close_err := Some (External ''database is locked'')\<rparr>),
      newSessionStmt = Some \<lparr>stmt_query = newSessionQuery, stmt_closes_with = None\<rparr>,
      hasSessionStmt = Some \<lparr>stmt_query = hasSessionQuery, stmt_closes_with = None\<rparr>\<rparr>"

text \<open>
  Numbers of 256, 1024 and 2048 bits.  The size checks read bit lengths only, so powers
  of two stand for the parameters of a key.
\<close>

definition bits256 :: int where "bits256 = 2 ^ 255"
definition bits1024 :: int where "bits1024 = 2 ^ 1023"
definition bits2048 :: int where "bits2048 = 2 ^ 2047"

text \<open>
  A DSA key with the parameter sizes L = 2048, N = 256 of FIPS 186, and a value of the
  key type whose \<open>P\<close> has 1024 bits and whose \<open>Q\<close> has 2048.
\<close>

definition dsa_L2048_N256 :: dsa_PrivateKey where
  "dsa_L2048_N256 = \<lparr>dsa_P = bits2048, dsa_Q = bits256, dsa_G = 2, dsa_Y = 4, dsa_X = 2\<rparr>"

definition dsa_P1024_Q2048 :: dsa_PrivateKey where
  "dsa_P1024_Q2048 = \<lparr>dsa_P = bits1024, dsa_Q = bits2048, dsa_G = 2, dsa_Y = 4, dsa_X = 2\<rparr>"

definition rsa_2048 :: rsa_PrivateKey where
  "rsa_2048 = \<lparr>rsa_N = bits2048, rsa_E = 65537, rsa_D = 1\<rparr>"

definition ecdsa_P256 :: ecdsa_PrivateKey where
  "ecdsa_P256 = \<lparr>ecdsa_Curve = P256, ecdsa_X = 5, ecdsa_Y = 7, ecdsa_D = 3\<rparr>"

definition ecdsa_other :: ecdsa_PrivateKey where
  "ecdsa_other = \<lparr>ecdsa_Curve = OtherCurve, ecdsa_X = 5, ecdsa_Y = 7, ecdsa_D = 3\<rparr>"

text \<open>The package variable after \<^verbatim>\<open>SetPrivateKey\<close> of the RSA key.\<close>

definition rsa_privateKey :: "PrivateKey option" where
  "rsa_privateKey = fst (SetPrivateKey (RSA rsa_2048) None)"

definition ecdsa_privateKey :: "PrivateKey option" where
  "ecdsa_privateKey = fst (SetPrivateKey (ECDSA ecdsa_P256) None)"

text \<open>Signing primitives that answer with fixed values, and the identity for the hash.\<close>

definition fixed_env :: crypto_env where
  "fixed_env =
     \<lparr>dsa_Sign = (\<lambda>k d. Inr (1, 2)), ecdsa_Sign = (\<lambda>k d. Inr (1, 2)),
      rsa_SignPKCS1v15 = (\<lambda>k d. Inr ''0123456789ab''), sha256_Sum = (\<lambda>d. d)\<rparr>"

text \<open>A request, and the instant half a second after second 1700000000.\<close>

definition example_req :: RequestGenerateCertificate where
  "example_req =
     \<lparr>req_Email = ''al@b.c'',
      req_PublicKey = Some [(''e'', ''3''), (''algorithm'', ''RS'')],
      req_Duration = 100\<rparr>"

definition example_now :: int where
  "example_now = 1700000000500000000"

definition example_token :: string where
  "example_token = ''eyJhbGciOiJSUzI1NiJ9.CnsiaWF0IjoiMTcwMDAwMDAwMDAwMDAwMCIsImV4cCI6IjE3MDAwMDAwMDAwMDAwMDAiLCJpc3MiOiJ0aW1ld2FzdGVkLm1lIiwicHVibGljLWtleSI6eyJhbGdvcml0aG0iOiJSUyIsImUiOiIzIn0sInByaW5jaXBhbCI6eyJlbWFpbCI6ImFsQGIuYyJ9.fQowMTIzNDU2Nzg5''"

definition example_claims_json :: string where
  \<open>example_claims_json = ''{"iat":"1700000000000000","exp":"1700000000000000","iss":"timewasted.me","public-key":{"algorithm":"RS","e":"3"},"principal":{"email":"al@b.c"}}''\<close>

section \<open>Evaluation lemmas\<close>

lemma bit_length_pow2: "bit_length (2 ^ n) = Suc n"
  by (induction n) (simp_all add: bit_length.simps)

lemma BitLen_pow2: "BitLen (2 ^ n) = Suc n"
  by (simp add: BitLen_def nat_power_eq bit_length_pow2)

lemma BitLen_bits256: "BitLen bits256 = 256"
  unfolding bits256_def by (simp only: BitLen_pow2)

lemma BitLen_bits1024: "BitLen bits1024 = 1024"
  unfolding bits1024_def by (simp only: BitLen_pow2)

lemma BitLen_bits2048: "BitLen bits2048 = 2048"
  unfolding bits2048_def by (simp only: BitLen_pow2)

lemma char_of_byte:
  "char_of (n::nat) = Char (odd n) (odd (n div 2)) (odd (n div 4)) (odd (n div 8))
     (odd (n div 16)) (odd (n div 32)) (odd (n div 64)) (odd (n div 128))"
  by (simp add: char_of_def bit_iff_odd)

lemma dec_digits_small: "n < 10 \<Longrightarrow> dec_digits n = [digit_char n]"
  by (simp add: dec_digits.simps)

lemma dec_digits_large:
  "10 \<le> n \<Longrightarrow> dec_digits n = dec_digits (n div 10) @ [digit_char (n mod 10)]"
  by (subst dec_digits.simps) simp

lemmas eval_digits = dec_digits_small dec_digits_large digit_char_def char_of_byte

section \<open>The session store\<close>

lemma live_rows_Nil:
  "live_rows db em = [] \<longleftrightarrow>
     (\<forall>r \<in> set (table_rows db).
        email_canonical r \<noteq> em \<or> created_at r + duration r \<le> clock db)"
  by (auto simp: live_rows_def filter_empty_conv)

text \<open>
  On an opened store \<^verbatim>\<open>NewSession\<close> never reports success and never changes the table:
  \<^verbatim>\<open>Exec\<close> is given two arguments for a statement with four placeholders.
\<close>

lemma NewSession_never_succeeds:
  assumes "DB b = Some db" and "handles_ok b"
  shows "snd (NewSession b em ident) \<noteq> None \<and> DB (fst (NewSession b em ident)) = Some db"
proof -
  have q: "\<And>s. newSessionStmt b = Some s \<Longrightarrow> stmt_query s = newSessionQuery"
    using assms(2) by (simp add: handles_ok_def)
  show ?thesis
    using assms(1) q
    by (auto simp: NewSession_def Prepare_def Exec_def split: option.splits sum.splits)
qed

text \<open>
  Claim C3 (createSession stores the case-folded e-mail and the clamped duration, so that
  a session created for \<^verbatim>\<open>User@Example.com\<close> is live for \<^verbatim>\<open>user@example.com\<close>).
  The code at that input: on a freshly opened, empty store,
  \<^verbatim>\<open>NewSession("User@Example.com", "100000")\<close> returns the argument-count error of
  \<^verbatim>\<open>database/sql\<close>, the table stays empty, and \<^verbatim>\<open>HasSession("user@example.com")\<close> right
  after it answers false.
\<close>

theorem NewSession_example_rejected:
  "snd (NewSession fresh_backing ''User@Example.com'' ''100000'') = Some (SqlArgCount 4 2)
   \<and> map_option table_rows (DB (fst (NewSession fresh_backing ''User@Example.com'' ''100000'')))
       = Some []
   \<and> snd (HasSession (fst (NewSession fresh_backing ''User@Example.com'' ''100000''))
            ''user@example.com'') = (False, None)"
  by (simp add: NewSession_def HasSession_def fresh_backing_def fresh_db_def Prepare_def Exec_def
        QueryRow_Scan_def live_rows_def)

text \<open>
  Claim C8.  On an opened store, \<^verbatim>\<open>HasSession\<close> answers false with no error whenever the
  storage layer works and every row either has another \<^verbatim>\<open>email_canonical\<close> or is expired
  (\<^verbatim>\<open>created_at + duration <= now\<close>); and whenever it returns an error, that error is the
  one the storage layer reported, from \<^verbatim>\<open>Prepare\<close> or from running the query.
\<close>

theorem HasSession_false_without_error:
  assumes "DB b = Some db" and "handles_ok b"
  shows "(prepare_err db = None \<and> exec_err db = None \<and>
          (\<forall>r \<in> set (table_rows db).
             email_canonical r \<noteq> em \<or> created_at r + duration r \<le> clock db)
            \<longrightarrow> snd (HasSession b em) = (False, None))
       \<and> (\<forall>e. snd (snd (HasSession b em)) = Some e
            \<longrightarrow> prepare_err db = Some e \<or> exec_err db = Some e)"
proof (intro conjI impI allI)
  have q: "\<And>s. hasSessionStmt b = Some s \<Longrightarrow> stmt_query s = hasSessionQuery"
    using assms(2) by (simp add: handles_ok_def)
  {
    assume h: "prepare_err db = None \<and> exec_err db = None \<and>
      (\<forall>r \<in> set (table_rows db).
         email_canonical r \<noteq> em \<or> created_at r + duration r \<le> clock db)"
    then have "live_rows db em = []"
      by (simp add: live_rows_Nil)
    with h assms(1) q show "snd (HasSession b em) = (False, None)"
      by (simp add: HasSession_def Prepare_def QueryRow_Scan_def split: option.splits)
  }
  {
    fix e
    assume "snd (snd (HasSession b em)) = Some e"
    with assms(1) q show "prepare_err db = Some e \<or> exec_err db = Some e"
      by (auto simp: HasSession_def Prepare_def QueryRow_Scan_def
               split: option.splits sum.splits list.splits error.splits)
  }
qed

text \<open>
  The theorem at three stores: an empty one, one whose only session is expired, and one
  whose storage layer fails.
\<close>

theorem HasSession_false_without_error_witness:
  "snd (HasSession fresh_backing ''nobody@example.com'') = (False, None)
   \<and> snd (HasSession expired_backing ''user@example.com'') = (False, None)
   \<and> snd (HasSession failing_backing ''user@example.com'')
       = (False, Some (External ''disk I/O error''))
   \<and> exec_err (the (DB failing_backing)) = Some (External ''disk I/O error'')"
  using HasSession_false_without_error [of fresh_backing fresh_db "''nobody@example.com''"]
        HasSession_false_without_error [of expired_backing "the (DB expired_backing)"
          "''user@example.com''"]
        HasSession_false_without_error [of failing_backing "the (DB failing_backing)"
          "''user@example.com''"]
  by (simp add: fresh_backing_def expired_backing_def failing_backing_def fresh_db_def
        handles_ok_def HasSession_def Prepare_def QueryRow_Scan_def)

text \<open>
  Claim C10.  \<^verbatim>\<open>Close\<close> leaves all three handles nil, and the error it returns is the
  result of closing the last handle that was not nil: \<^verbatim>\<open>hasSessionStmt\<close> if there is one,
  else \<^verbatim>\<open>newSessionStmt\<close>, else \<^verbatim>\<open>DB\<close>; the results of the handles closed before it are
  dropped.
\<close>

theorem Close_returns_last_error:
  "Close b = (\<lparr>DB = None, newSessionStmt = None, hasSessionStmt = None\<rparr>,
     (case hasSessionStmt b of
        Some s \<Rightarrow> stmt_closes_with s
      | None \<Rightarrow>
         (case newSessionStmt b of
            Some s \<Rightarrow> stmt_closes_with s
          | None \<Rightarrow> (case DB b of Some db \<Rightarrow> db_close_err db | None \<Rightarrow> None))))"
  by (cases b) (simp add: Close_def split: option.splits)

text \<open>The connection's close error is lost when the statements close cleanly.\<close>

theorem Close_returns_last_error_witness:
  "map_option db_close_err (DB closing_backing) = Some (Some (External ''database is locked''))
   \<and> Close closing_backing = (\<lparr>DB = None, newSessionStmt = None, hasSessionStmt = None\<rparr>, None)"
  using Close_returns_last_error [of closing_backing]
  by (simp add: closing_backing_def fresh_db_def)

section \<open>The signing key\<close>

text \<open>What \<^verbatim>\<open>SetPrivateKey\<close> compares for a DSA key is the bit length of \<open>Q\<close>.\<close>

lemma SetPrivateKey_DSA_accepts_iff:
  "snd (SetPrivateKey (DSA d) privateKey) = None \<longleftrightarrow> 2048 \<le> BitLen (dsa_Q d)"
  by (simp add: SetPrivateKey_def MinKeySizeDSA_def)

lemma SetPrivateKey_DSA_error:
  "BitLen (dsa_Q d) < 2048 \<Longrightarrow>
     SetPrivateKey (DSA d) privateKey = (privateKey, Some (PrivateKeyTooSmall (BitLen (dsa_Q d)) 2048))"
  by (simp add: SetPrivateKey_def MinKeySizeDSA_def)

text \<open>
  Claim C4 (a DSA key is accepted only if its public modulus has at least 2048 bits, and
  fails with the too-small error otherwise).  The code at two keys: a value whose modulus
  \<open>P\<close> has 1024 bits and whose \<open>Q\<close> has 2048 is accepted and becomes the package's key;
  a key of the standard sizes, \<open>P\<close> of 2048 bits and \<open>Q\<close> of 256, is refused as a key
  of 256 bits.
\<close>

theorem SetPrivateKey_DSA_compares_Q:
  "BitLen (dsa_P dsa_P1024_Q2048) = 1024
   \<and> snd (SetPrivateKey (DSA dsa_P1024_Q2048) None) = None
   \<and> map_option key (fst (SetPrivateKey (DSA dsa_P1024_Q2048) None)) = Some (DSA dsa_P1024_Q2048)
   \<and> BitLen (dsa_P dsa_L2048_N256) = 2048
   \<and> SetPrivateKey (DSA dsa_L2048_N256) None = (None, Some (PrivateKeyTooSmall 256 2048))"
  by (simp add: SetPrivateKey_def MinKeySizeDSA_def dsa_P1024_Q2048_def dsa_L2048_N256_def
        BitLen_bits256 BitLen_bits1024 BitLen_bits2048)

text \<open>
  Claim C5 (every signing or descriptor operation before a key is assigned returns the
  undefined-key error, not a crash).  The code before any assignment: the package
  variable is the nil pointer, and \<^verbatim>\<open>SupportDoc\<close>, \<^verbatim>\<open>IdCertHeader\<close>, \<^verbatim>\<open>Sign\<close> and with them
  \<^verbatim>\<open>identityCertificate\<close> panic on reading \<^verbatim>\<open>pk.key\<close>.
\<close>

theorem unassigned_key_panics:
  "SupportDoc None = Panic NilPointerDereference
   \<and> IdCertHeader None = Panic NilPointerDereference
   \<and> Sign env None data = Panic NilPointerDereference
   \<and> identityCertificate env None now1 now2 req = Panic NilPointerDereference"
  by (simp add: SupportDoc_def IdCertHeader_def Sign_def identityCertificate_def)

text \<open>
  Claim C6.  When \<^verbatim>\<open>SetPrivateKey\<close> returns an error, the package variable is what it was
  before and the error is one of the three rejections; when it returns no error, the
  variable holds the new key together with its finished descriptor.
\<close>

theorem SetPrivateKey_rejected_keeps_previous:
  "(snd (SetPrivateKey k privateKey) \<noteq> None \<longrightarrow>
      fst (SetPrivateKey k privateKey) = privateKey
      \<and> (\<exists>bits. snd (SetPrivateKey k privateKey) = Some (PrivateKeyTooSmall bits 2048)
          \<or> snd (SetPrivateKey k privateKey) = Some UnsupportedEllipticCurve
          \<or> snd (SetPrivateKey k privateKey) = Some UnsupportedPrivateKeyType))
   \<and> (snd (SetPrivateKey k privateKey) = None \<longrightarrow>
      (\<exists>doc. fst (SetPrivateKey k privateKey) = Some \<lparr>key = k, supportDoc = Some doc\<rparr>))"
  by (cases k)
     (auto simp: SetPrivateKey_def MinKeySizeDSA_def MinKeySizeRSA_def split: option.splits)

text \<open>
  The theorem at four assignments over an ECDSA key already in place (a DSA key and an
  RSA key that are too small, an unsupported curve, the nil interface) and at one
  assignment that succeeds.
\<close>

theorem SetPrivateKey_rejected_keeps_previous_witness:
  "SetPrivateKey (DSA dsa_L2048_N256) ecdsa_privateKey
     = (ecdsa_privateKey, Some (PrivateKeyTooSmall 256 2048))
   \<and> SetPrivateKey (RSA \<lparr>rsa_N = bits1024, rsa_E = 3, rsa_D = 1\<rparr>) ecdsa_privateKey
     = (ecdsa_privateKey, Some (PrivateKeyTooSmall 1024 2048))
   \<and> SetPrivateKey (ECDSA ecdsa_other) ecdsa_privateKey
     = (ecdsa_privateKey, Some UnsupportedEllipticCurve)
   \<and> SetPrivateKey NilKey ecdsa_privateKey = (ecdsa_privateKey, Some UnsupportedPrivateKeyType)
   \<and> ecdsa_privateKey \<noteq> None
   \<and> snd (SetPrivateKey (RSA rsa_2048) ecdsa_privateKey) = None
   \<and> map_option key (fst (SetPrivateKey (RSA rsa_2048) ecdsa_privateKey)) = Some (RSA rsa_2048)"
  using SetPrivateKey_rejected_keeps_previous [of "DSA dsa_L2048_N256" ecdsa_privateKey]
        SetPrivateKey_rejected_keeps_previous [of "RSA rsa_2048" ecdsa_privateKey]
  by (simp add: SetPrivateKey_def MinKeySizeDSA_def MinKeySizeRSA_def dsa_L2048_N256_def
        rsa_2048_def ecdsa_other_def ecdsa_privateKey_def ecdsa_P256_def
        BitLen_bits256 BitLen_bits1024 BitLen_bits2048)

section \<open>The certificate issuer\<close>

subsection \<open>The requested duration\<close>

lemma idCert_clamp_Duration:
  "idCert now1 now2 (clamp_Duration req) =
     \<lparr>Iat = Unix (Add now1 idCertIatFuzzDuration) * Millisecond,
      Exp = Unix (Add now2 idCertExpMaxDuration) * Millisecond,
      Iss = ''timewasted.me'',
      PublicKey = req_PublicKey req,
      Principal = \<lparr>Email = req_Email req\<rparr>\<rparr>"
  by (simp add: idCert_def clamp_Duration_def)

text \<open>
  Claim C9.  Two requests that differ in \<^verbatim>\<open>Duration\<close> only, issued with the same key, the
  same clock readings and the same signing primitives, get the same claims and the same
  result, token or error.
\<close>

theorem identityCertificate_ignores_Duration:
  "idCert now1 now2 (clamp_Duration (req\<lparr>req_Duration := d1\<rparr>))
     = idCert now1 now2 (clamp_Duration (req\<lparr>req_Duration := d2\<rparr>))
   \<and> identityCertificate env privateKey now1 now2 (req\<lparr>req_Duration := d1\<rparr>)
     = identityCertificate env privateKey now1 now2 (req\<lparr>req_Duration := d2\<rparr>)"
  by (simp add: identityCertificate_def idCert_clamp_Duration Let_def cong: outcome.case_cong)

subsection \<open>The timestamps\<close>

lemma idCert_example:
  "idCert example_now example_now (clamp_Duration example_req) =
     \<lparr>Iat = 1700000000000000, Exp = 1700000000000000, Iss = ''timewasted.me'',
      PublicKey = Some [(''e'', ''3''), (''algorithm'', ''RS'')],
      Principal = \<lparr>Email = ''al@b.c''\<rparr>\<rparr>"
  by (simp add: idCert_clamp_Duration example_req_def example_now_def Unix_def Add_def
        Millisecond_def idCertIatFuzzDuration_def idCertExpMaxDuration_def SessionMaxDuration_def)

text \<open>
  Claim C2 (\<^verbatim>\<open>exp - iat\<close> equals the maximum duration, with \<^verbatim>\<open>exp\<close> the clock plus the
  maximum and \<^verbatim>\<open>iat\<close> the clock minus the fuzz).  The code half a second after second
  1700000000: the two constants, which their comments give in seconds, are added to the
  clock as 86400 and 10 nanoseconds, so both shifted instants lie in the very second of
  the clock reading, \<^verbatim>\<open>exp\<close> and \<^verbatim>\<open>iat\<close> are the same number, and \<^verbatim>\<open>exp - iat\<close> is 0 where the
  maximum duration is 86400 seconds.
\<close>

theorem idCert_example_exp_minus_iat:
  "Add example_now idCertExpMaxDuration - example_now = 86400
   \<and> example_now - Add example_now idCertIatFuzzDuration = 10
   \<and> Unix (Add example_now idCertExpMaxDuration) = Unix example_now
   \<and> Unix (Add example_now idCertIatFuzzDuration) = Unix example_now
   \<and> Exp (idCert example_now example_now (clamp_Duration example_req))
       = Iat (idCert example_now example_now (clamp_Duration example_req))
   \<and> sint (Exp (idCert example_now example_now (clamp_Duration example_req)))
       - sint (Iat (idCert example_now example_now (clamp_Duration example_req))) = 0
   \<and> idCertExpMaxDuration = 86400"
proof -
  have a: "Add example_now idCertExpMaxDuration - example_now = 86400"
          "example_now - Add example_now idCertIatFuzzDuration = 10"
    by (simp_all add: Add_def idCertIatFuzzDuration_def idCertExpMaxDuration_def
          SessionMaxDuration_def)
  have u: "Unix (Add example_now idCertExpMaxDuration) = Unix example_now"
          "Unix (Add example_now idCertIatFuzzDuration) = Unix example_now"
    by (simp_all add: example_now_def Unix_def Add_def idCertIatFuzzDuration_def
          idCertExpMaxDuration_def SessionMaxDuration_def)
  have t: "Exp (idCert example_now example_now (clamp_Duration example_req))
             = Iat (idCert example_now example_now (clamp_Duration example_req))"
          "sint (Exp (idCert example_now example_now (clamp_Duration example_req)))
             - sint (Iat (idCert example_now example_now (clamp_Duration example_req))) = 0"
    by (simp_all add: idCert_example)
  have m: "idCertExpMaxDuration = 86400"
    by (simp add: idCertExpMaxDuration_def SessionMaxDuration_def)
  from a u t m show ?thesis by blast
qed

text \<open>
  Claim C7 (\<^verbatim>\<open>iat\<close> and \<^verbatim>\<open>exp\<close> are the epoch seconds times exactly 1000).  The code half a
  second after second 1700000000: the epoch seconds of both shifted instants are
  1700000000, and both fields are that number times 1000000.
\<close>

theorem idCert_example_timestamps:
  "Unix (Add example_now idCertIatFuzzDuration) = 1700000000
   \<and> Unix (Add example_now idCertExpMaxDuration) = 1700000000
   \<and> sint (Iat (idCert example_now example_now (clamp_Duration example_req)))
       = 1700000000 * 1000000
   \<and> sint (Exp (idCert example_now example_now (clamp_Duration example_req)))
       = 1700000000 * 1000000
   \<and> sint (Iat (idCert example_now example_now (clamp_Duration example_req)))
       \<noteq> 1700000000 * 1000"
proof -
  have u: "Unix (Add example_now idCertIatFuzzDuration) = 1700000000"
          "Unix (Add example_now idCertExpMaxDuration) = 1700000000"
    by (simp_all add: example_now_def Unix_def Add_def idCertIatFuzzDuration_def
          idCertExpMaxDuration_def SessionMaxDuration_def)
  have t: "sint (Iat (idCert example_now example_now (clamp_Duration example_req)))
             = 1700000000 * 1000000"
          "sint (Exp (idCert example_now example_now (clamp_Duration example_req)))
             = 1700000000 * 1000000"
          "sint (Iat (idCert example_now example_now (clamp_Duration example_req)))
             \<noteq> 1700000000 * 1000"
    by (simp_all add: idCert_example)
  from u t show ?thesis by blast
qed

subsection \<open>The token\<close>

lemma rsa_privateKey_eq:
  "rsa_privateKey = Some \<lparr>key = RSA rsa_2048,
      supportDoc = Some (PublicKeyRSA ''RS'' (dec_int bits2048) (dec_int 65537))\<rparr>"
  by (simp add: rsa_privateKey_def SetPrivateKey_def rsa_2048_def BitLen_bits2048
        MinKeySizeRSA_def PrivateKeyTypeToAlgorithm_def)

lemma IdCertHeader_rsa: "IdCertHeader rsa_privateKey = Ok \<lparr>Alg = ''RS256''\<rparr>"
  by (simp add: rsa_privateKey_eq IdCertHeader_def rsa_2048_def BitLen_bits2048
        PrivateKeyTypeToAlgorithm_def eval_digits)

lemma Sign_rsa: "Sign fixed_env rsa_privateKey d = Ok ''0123456789ab''"
  by (simp add: rsa_privateKey_eq Sign_def signRSA_def fixed_env_def)

lemma sorted_example:
  "sort_key fst [(''e'', ''3''), (''algorithm'', ''RS'')] = [(''algorithm'', ''RS''), (''e'', ''3'')]"
  by code_simp

lemma claims_json_example:
  "json_IdentityCertificate (idCert example_now example_now (clamp_Duration example_req))
     = example_claims_json"
  by (simp add: idCert_example json_IdentityCertificate_def json_map_def sorted_example
        json_string_def json_char_def dec_int_def eval_digits example_claims_json_def)

lemma header_json_example:
  \<open>json_IdentityCertificateHeader \<lparr>Alg = ''RS256''\<rparr> = ''{"alg":"RS256"}''\<close>
  by (simp add: json_IdentityCertificateHeader_def json_string_def json_char_def)

lemma token_example:
  "identityCertificate fixed_env rsa_privateKey example_now example_now example_req
     = Ok example_token"
  by (simp add: identityCertificate_def IdCertHeader_rsa Sign_rsa claims_json_example
        header_json_example encoder_Write_def WriteByte_def encodeURL_def
        example_claims_json_def example_token_def Let_def)

lemma split_example:
  "split_dot example_token =
     [''eyJhbGciOiJSUzI1NiJ9'',
      ''CnsiaWF0IjoiMTcwMDAwMDAwMDAwMDAwMCIsImV4cCI6IjE3MDAwMDAwMDAwMDAwMDAiLCJpc3MiOiJ0aW1ld2FzdGVkLm1lIiwicHVibGljLWtleSI6eyJhbGdvcml0aG0iOiJSUyIsImUiOiIzIn0sInByaW5jaXBhbCI6eyJlbWFpbCI6ImFsQGIuYyJ9'',
      ''fQowMTIzNDU2Nzg5'']"
  by (simp add: example_token_def)

lemma decode_example:
  \<open>map RawURL_DecodeString (split_dot example_token) =
     [Some ''{"alg":"RS256"}'', Some (CHR 0x0A # butlast example_claims_json),
      Some (''}'' @ CHR 0x0A # ''0123456789'')]\<close>
  by (simp add: split_example RawURL_DecodeString_def encodeURL_def char_of_byte
        example_claims_json_def)

text \<open>
  Claim C1 (the three segments of a token decode to the header's JSON, the claims' JSON
  and the signature).  The code at one request, with an RSA key of 2048 bits and
  signing primitives that return the twelve bytes \<^verbatim>\<open>0123456789ab\<close>: the token has three
  segments; the first decodes to the header's JSON; the second decodes to a newline
  followed by the claims' JSON without its closing brace; the third decodes to that
  brace, a newline and the first ten bytes of the signature, whose last two bytes are
  in no segment.
\<close>

theorem identityCertificate_example_segments:
  \<open>identityCertificate fixed_env rsa_privateKey example_now example_now example_req
     = Ok example_token
   \<and> json_IdentityCertificate (idCert example_now example_now (clamp_Duration example_req))
     = example_claims_json
   \<and> Sign fixed_env rsa_privateKey (sha256_Sum fixed_env data) = Ok ''0123456789ab''
   \<and> map RawURL_DecodeString (split_dot example_token) =
       [Some (json_IdentityCertificateHeader \<lparr>Alg = ''RS256''\<rparr>),
        Some (CHR 0x0A # butlast example_claims_json),
        Some (''}'' @ CHR 0x0A # ''0123456789'')]
   \<and> RawURL_DecodeString (split_dot example_token ! 1) \<noteq> Some example_claims_json
   \<and> RawURL_DecodeString (split_dot example_token ! 2) \<noteq> Some ''0123456789ab''\<close>
proof -
  have d: \<open>map RawURL_DecodeString (split_dot example_token) =
       [Some (json_IdentityCertificateHeader \<lparr>Alg = ''RS256''\<rparr>),
        Some (CHR 0x0A # butlast example_claims_json),
        Some (''}'' @ CHR 0x0A # ''0123456789'')]\<close>
    by (simp only: decode_example header_json_example)
  have n1: "RawURL_DecodeString (split_dot example_token ! 1)
              = map RawURL_DecodeString (split_dot example_token) ! 1"
    by (simp add: split_example)
  have n2: "RawURL_DecodeString (split_dot example_token ! 2)
              = map RawURL_DecodeString (split_dot example_token) ! 2"
    by (simp add: split_example)
  have s1: "RawURL_DecodeString (split_dot example_token ! 1) \<noteq> Some example_claims_json"
    unfolding n1 d by (simp add: example_claims_json_def)
  have s2: "RawURL_DecodeString (split_dot example_token ! 2) \<noteq> Some ''0123456789ab''"
    unfolding n2 d by simp
  show ?thesis
    using token_example claims_json_example Sign_rsa d s1 s2 by blast
qed

end
